theory Spec2Isabelle
  imports Complex_Main "HOL-Library.Word"
begin

section \<open>The stopwatch of \<open>types.go\<close>\<close>

text \<open>
  \<open>types.go\<close> declares the interfaces of the metrics library (\<open>Scope\<close>, \<open>Counter\<close>,
  \<open>Gauge\<close>, \<open>Timer\<close>, \<open>Histogram\<close>, \<open>Buckets\<close>, \<open>Snapshot\<close>, ...) and implements one
  type, \<open>Stopwatch\<close>, with its constructor \<open>NewStopwatch\<close> and its method \<open>Stop\<close>.

  A \<open>time.Time\<close> is an instant; it is modelled as the number of nanoseconds that
  separate it from the zero instant \<open>time.Time{}\<close>.
\<close>

type_synonym Time = int

text \<open>
  A panic is the run-time error of a nil dereference or carries a value of the
  program's own.
\<close>

datatype panic = NilPointerDereference | PanicValue string

text \<open>
  How a call ends: it returns, leaving a result; it panics; or it never returns (it
  blocks or loops). The state in which a panic leaves the program is not kept.
\<close>

datatype 'a outcome = Returns 'a | Panics panic | Diverges

text \<open>
  \<open>type StopwatchRecorder interface { RecordStopwatch(stopwatchStart time.Time) }\<close>.
  A value of the interface type is either nil or an object with the method. The
  method has no result: a call of it changes the state of the program, of type \<open>'s\<close>,
  and returns, or it panics, or it never returns. Nothing in \<open>types.go\<close> restricts what
  an implementation does, so an implementation is any function from the argument and
  the state before the call to the outcome of the call. A field of the interface type
  is an \<open>option\<close>, \<open>None\<close> for the nil interface value.
\<close>

record 's StopwatchRecorder =
  RecordStopwatch :: "Time \<Rightarrow> 's \<Rightarrow> 's outcome"

text \<open>\<open>type Stopwatch struct { start time.Time; recorder StopwatchRecorder }\<close>\<close>

record 's Stopwatch =
  start :: Time
  recorder :: "'s StopwatchRecorder option"

text \<open>The zero value \<open>Stopwatch{}\<close>: the zero instant and the nil interface.\<close>

definition zero_Stopwatch :: "'s Stopwatch" where
  "zero_Stopwatch = \<lparr>start = 0, recorder = None\<rparr>"

text \<open>
  \<open>func NewStopwatch(start time.Time, r StopwatchRecorder) Stopwatch {
       return Stopwatch{start: start, recorder: r} }\<close>
\<close>

definition NewStopwatch :: "Time \<Rightarrow> 's StopwatchRecorder option \<Rightarrow> 's Stopwatch" where
  "NewStopwatch t r = \<lparr>start = t, recorder = r\<rparr>"

text \<open>
  \<open>func (sw Stopwatch) Stop() { sw.recorder.RecordStopwatch(sw.start) }\<close>

  The receiver is passed by value and the method returns nothing. A method call on a
  nil interface value is a run-time panic (nil pointer dereference). Otherwise the
  body is the one call of the recorder's method, with no \<open>recover\<close> around it: \<open>Stop\<close>
  ends as that call ends. When it returns, the model gives what the call leaves
  behind: the receiver as it is when the body ends, and the program state after the
  recorder's method has run.
\<close>

definition Stop :: "'s Stopwatch \<Rightarrow> 's \<Rightarrow> ('s Stopwatch \<times> 's) outcome" where
  "Stop sw s =
     (case recorder sw of
        None \<Rightarrow> Panics NilPointerDereference
      | Some r \<Rightarrow>
          (case RecordStopwatch r (start sw) s of
             Returns s' \<Rightarrow> Returns (sw, s')
           | Panics e \<Rightarrow> Panics e
           | Diverges \<Rightarrow> Diverges))"

text \<open>
  \<open>n\<close> calls of \<open>Stop\<close> in sequence, each on the stopwatch and the state the call
  before it left; a call that panics or never returns ends the sequence.
\<close>

fun Stop_times :: "nat \<Rightarrow> 's Stopwatch \<Rightarrow> 's \<Rightarrow> ('s Stopwatch \<times> 's) outcome" where
  "Stop_times 0 sw s = Returns (sw, s)"
| "Stop_times (Suc n) sw s =
     (case Stop sw s of
        Returns (sw', s') \<Rightarrow> Stop_times n sw' s'
      | Panics e \<Rightarrow> Panics e
      | Diverges \<Rightarrow> Diverges)"

text \<open>
  \<open>n\<close> calls of a recorder's \<open>RecordStopwatch\<close> in sequence, all with the argument \<open>t\<close>.
\<close>

fun RecordStopwatch_times :: "nat \<Rightarrow> 's StopwatchRecorder \<Rightarrow> Time \<Rightarrow> 's \<Rightarrow> 's outcome" where
  "RecordStopwatch_times 0 r t s = Returns s"
| "RecordStopwatch_times (Suc n) r t s =
     (case RecordStopwatch r t s of
        Returns s' \<Rightarrow> RecordStopwatch_times n r t s'
      | Panics e \<Rightarrow> Panics e
      | Diverges \<Rightarrow> Diverges)"

subsection \<open>Recorders to observe the calls\<close>

text \<open>
  The implementations of \<open>StopwatchRecorder\<close> (the timer and the histogram) are not
  in \<open>types.go\<close>. To observe what \<open>Stop\<close> hands over, the following program state has
  a clock and the list of the arguments a recorder has received, and
  \<open>logging_recorder\<close> is the recorder that appends its argument to that list and
  returns.
\<close>

record world =
  clock :: Time
  received :: "Time list"

definition logging_recorder :: "world StopwatchRecorder" where
  "logging_recorder =
     \<lparr>RecordStopwatch = (\<lambda>t w. Returns (w\<lparr>received := received w @ [t]\<rparr>))\<rparr>"

text \<open>
  An interface value that is not nil can hold a nil pointer: with
  \<open>type T struct{ n int }\<close> and \<open>func (t *T) RecordStopwatch(time.Time) { t.n++ }\<close>, the
  value \<open>StopwatchRecorder((*T)(nil))\<close> is a recorder that is not nil and whose method
  dereferences a nil pointer. \<open>typed_nil_recorder\<close> is that recorder.
\<close>

definition typed_nil_recorder :: "world StopwatchRecorder" where
  "typed_nil_recorder = \<lparr>RecordStopwatch = (\<lambda>t w. Panics NilPointerDereference)\<rparr>"

text \<open>A recorder whose method panics with a value of its own.\<close>

definition panicking_recorder :: "world StopwatchRecorder" where
  "panicking_recorder = \<lparr>RecordStopwatch = (\<lambda>t w. Panics (PanicValue ''recorder failed''))\<rparr>"

section \<open>Counters and \<open>SnapshotReset\<close>\<close>

text \<open>
  \<open>types.go\<close> declares \<open>Counter\<close> (\<open>Inc(delta int64)\<close>), \<open>SnapshotResetProvider\<close>
  (\<open>SnapshotReset(opts ResetOptions) Snapshot\<close>), \<open>Snapshot\<close> (\<open>Counters()\<close>, a map from
  a string to a \<open>CounterSnapshot\<close>) and \<open>CounterSnapshot\<close> (\<open>Value() int64\<close>), and defines
  the struct \<open>ResetOptions\<close>. The types that implement the interfaces are not in
  \<open>types.go\<close>; their behaviour is taken from the specification.
\<close>

type_synonym int64 = "64 word"

text \<open>
  \<open>type ResetOptions struct { ResetCounters bool; ResetTimers bool; ResetHistograms bool }\<close>
\<close>

record ResetOptions =
  ResetCounters :: bool
  ResetTimers :: bool
  ResetHistograms :: bool

text \<open>
  Modelled from the spec: the counters a scope owns. The scope's implementation is
  missing from the sources. The specification gives a scope a cache from the identity
  of a metric to its primitive, and describes a counter as an accumulated signed
  64-bit delta. Only the counters are kept here; gauges, timers and histograms play no
  part in what follows.
\<close>

record scope =
  counters :: "string \<rightharpoonup> int64"

text \<open>
  The \<open>Snapshot\<close> interface of \<open>types.go\<close>, reduced to \<open>Counters()\<close>, and each
  \<open>CounterSnapshot\<close> to its \<open>Value()\<close>.
\<close>

record Snapshot =
  Counters :: "string \<rightharpoonup> int64"

text \<open>Modelled from the spec: a scope that has handed out no counter yet.\<close>

definition NewScope :: scope where
  "NewScope = \<lparr>counters = Map.empty\<rparr>"

text \<open>
  Modelled from the spec: \<open>scope.Counter(name).Inc(delta)\<close>, whose implementation is
  missing. \<open>Counter(name)\<close> returns the cached counter and creates it, at zero, on first
  access; \<open>Inc\<close> adds a signed delta to the accumulated value. The addition is that of
  \<open>int64\<close>: it wraps.
\<close>

definition Inc :: "string \<Rightarrow> int64 \<Rightarrow> scope \<Rightarrow> scope" where
  "Inc name delta s =
     s\<lparr>counters :=
         (counters s)(name \<mapsto> (case counters s name of None \<Rightarrow> 0 | Some v \<Rightarrow> v) + delta)\<rparr>"

text \<open>
  Modelled from the spec: \<open>SnapshotReset(opts)\<close>, whose implementation is missing. It
  collects a copy of every counter's current value and then clears the accumulators
  the flags select; the copy and the clearing of one counter are one atomic step. A
  cleared counter stays registered, at zero.
\<close>

definition SnapshotReset :: "ResetOptions \<Rightarrow> scope \<Rightarrow> Snapshot \<times> scope" where
  "SnapshotReset opts s =
     (\<lparr>Counters = counters s\<rparr>,
      if ResetCounters opts
      then s\<lparr>counters := (\<lambda>k. map_option (\<lambda>_. 0) (counters s k))\<rparr>
      else s)"

text \<open>
  A window of increments: the calls \<open>Counter(name).Inc(delta)\<close> made between two
  snapshots, in the order in which they take effect.
\<close>

fun Incs :: "(string \<times> int64) list \<Rightarrow> scope \<Rightarrow> scope" where
  "Incs [] s = s"
| "Incs ((name, delta) # w) s = Incs w (Inc name delta s)"

text \<open>The sum of the deltas that a window applies to the counter \<open>c\<close>.\<close>

definition window_total :: "string \<Rightarrow> (string \<times> int64) list \<Rightarrow> int64" where
  "window_total c w = sum_list (map snd (filter (\<lambda>x. fst x = c) w))"

section \<open>Linear value buckets\<close>

text \<open>
  \<open>types.go\<close> declares \<open>Buckets\<close> (a sortable collection with \<open>AsValues() []float64\<close>)
  and names the constructor \<open>MustMakeLinearValueBuckets(start, width, count)\<close> in a
  comment; the constructor itself is not in \<open>types.go\<close>. Its behaviour is taken from
  the specification. Boundaries are real numbers here: the rounding of \<open>float64\<close> is
  not modelled.
\<close>



section \<open>Properties of the stopwatch\<close>

lemma Stop_Some:
  "recorder sw = Some r \<Longrightarrow>
   Stop sw s = map_outcome (Pair sw) (RecordStopwatch r (start sw) s)"
  by (simp add: Stop_def split: outcome.splits)

lemma Stop_None: "recorder sw = None \<Longrightarrow> Stop sw s = Panics NilPointerDereference"
  by (simp add: Stop_def)

lemma Stop_times_Some:
  "recorder sw = Some r \<Longrightarrow>
   Stop_times n sw s = map_outcome (Pair sw) (RecordStopwatch_times n r (start sw) s)"
proof (induction n arbitrary: s)
  case 0
  show ?case by simp
next
  case (Suc n)
  show ?case
  proof (cases "RecordStopwatch r (start sw) s")
    case (Returns s')
    with Suc.prems have "Stop sw s = Returns (sw, s')" by (simp add: Stop_Some)
    with Returns Suc.IH [OF Suc.prems, of s'] show ?thesis by simp
  next
    case (Panics e)
    with Suc.prems have "Stop sw s = Panics e" by (simp add: Stop_Some)
    with Panics show ?thesis by simp
  next
    case Diverges
    with Suc.prems have "Stop sw s = Diverges" by (simp add: Stop_Some)
    with Diverges show ?thesis by simp
  qed
qed

lemma RecordStopwatch_times_returning:
  "(\<And>x. RecordStopwatch r t x = Returns (f x)) \<Longrightarrow>
   RecordStopwatch_times n r t s = Returns ((f ^^ n) s)"
proof (induction n arbitrary: s)
  case 0
  show ?case by simp
next
  case (Suc n)
  have "RecordStopwatch_times (Suc n) r t s = RecordStopwatch_times n r t (f s)"
    by (simp add: Suc.prems)
  also have "\<dots> = Returns ((f ^^ n) (f s))"
    by (rule Suc.IH) (rule Suc.prems)
  finally show ?case by (simp add: funpow_swap1)
qed

subsection \<open>What \<open>Stop\<close> hands to the recorder\<close>

text \<open>
  C3, as amended. For every stopwatch whose recorder is not nil, \<open>Stop\<close> makes one call
  of the recorder's \<open>RecordStopwatch\<close>, and the argument of that call is the start
  instant stored in the stopwatch; \<open>Stop\<close> ends as that call ends, and it completes
  exactly when the recorder has taken the start instant and returned. \<open>Stop\<close> computes
  no duration and reads no clock: whatever is elapsed since the start has to be worked
  out by the recorder.
\<close>

theorem Stop_hands_start_to_recorder:
  "recorder sw = Some r \<Longrightarrow>
     Stop sw s = map_outcome (Pair sw) (RecordStopwatch r (start sw) s)
   \<and> (\<forall>sw' s'. Stop sw s = Returns (sw', s')
         \<longleftrightarrow> sw' = sw \<and> RecordStopwatch r (start sw) s = Returns s')"
  by (cases "RecordStopwatch r (start sw) s") (auto simp: Stop_def)

theorem Stop_hands_start_to_recorder_witness:
  "recorder (NewStopwatch 100 (Some logging_recorder)) = Some logging_recorder
   \<and> Stop (NewStopwatch 100 (Some logging_recorder)) \<lparr>clock = 150, received = []\<rparr>
       = Returns (NewStopwatch 100 (Some logging_recorder), \<lparr>clock = 150, received = [100]\<rparr>)"
proof -
  have h: "recorder (NewStopwatch 100 (Some logging_recorder)) = Some logging_recorder"
    by (simp add: NewStopwatch_def)
  have "RecordStopwatch logging_recorder
          (start (NewStopwatch 100 (Some logging_recorder))) \<lparr>clock = 150, received = []\<rparr>
        = Returns \<lparr>clock = 150, received = [100]\<rparr>"
    by (simp add: NewStopwatch_def logging_recorder_def)
  with Stop_hands_start_to_recorder [OF h, of "\<lparr>clock = 150, received = []\<rparr>"] h
  show ?thesis by simp
qed

text \<open>
  C3 as the specification words it: \<open>Stop\<close> hands the elapsed duration, now minus
  start, to the recorder. With the start at 100 and the clock at 150 the elapsed
  duration is 50; the recorder receives 100, the start instant.
\<close>

theorem Stop_hands_elapsed_counterexample:
  "Stop (NewStopwatch 100 (Some logging_recorder)) \<lparr>clock = 150, received = []\<rparr>
     \<noteq> map_outcome (Pair (NewStopwatch 100 (Some logging_recorder)))
          (RecordStopwatch logging_recorder
             (clock \<lparr>clock = 150, received = []\<rparr>
                - start (NewStopwatch 100 (Some logging_recorder)))
             \<lparr>clock = 150, received = []\<rparr>)
   \<and> Stop (NewStopwatch 100 (Some logging_recorder)) \<lparr>clock = 150, received = []\<rparr>
       = Returns (NewStopwatch 100 (Some logging_recorder), \<lparr>clock = 150, received = [100]\<rparr>)
   \<and> Stop (NewStopwatch 100 (Some logging_recorder)) \<lparr>clock = 150, received = []\<rparr>
       \<noteq> Returns (NewStopwatch 100 (Some logging_recorder), \<lparr>clock = 150, received = [50]\<rparr>)"
  by (simp add: Stop_def NewStopwatch_def logging_recorder_def)

subsection \<open>\<open>Stop\<close> reports on every call\<close>

text \<open>
  C4, as amended. Every call of \<open>Stop\<close> on a stopwatch whose recorder is not nil makes
  exactly one call of the recorder's \<open>RecordStopwatch\<close>, with the start instant, and
  leaves the stopwatch value as it was: two calls of \<open>Stop\<close> are two identical
  invocations of the recorder (the second is made when the first returns), and \<open>n\<close>
  calls are \<open>n\<close> of them. For a recorder whose method always returns, with the effect
  \<open>f\<close> on the state, \<open>n\<close> calls of \<open>Stop\<close> complete and apply \<open>f\<close> \<open>n\<close> times.
\<close>

theorem Stop_reports_on_every_call:
  "recorder sw = Some r \<Longrightarrow>
     Stop sw s = map_outcome (Pair sw) (RecordStopwatch r (start sw) s)
   \<and> Stop_times 2 sw s =
       (case RecordStopwatch r (start sw) s of
          Returns s1 \<Rightarrow> map_outcome (Pair sw) (RecordStopwatch r (start sw) s1)
        | Panics e \<Rightarrow> Panics e
        | Diverges \<Rightarrow> Diverges)
   \<and> Stop_times n sw s = map_outcome (Pair sw) (RecordStopwatch_times n r (start sw) s)
   \<and> ((\<forall>x. RecordStopwatch r (start sw) x = Returns (f x))
        \<longrightarrow> Stop_times n sw s = Returns (sw, (f ^^ n) s))"
proof -
  assume r: "recorder sw = Some r"
  have one: "Stop sw s = map_outcome (Pair sw) (RecordStopwatch r (start sw) s)"
    using r by (rule Stop_Some)
  have "Stop_times 2 sw s = map_outcome (Pair sw) (RecordStopwatch_times 2 r (start sw) s)"
    using r by (rule Stop_times_Some)
  then have two: "Stop_times 2 sw s =
       (case RecordStopwatch r (start sw) s of
          Returns s1 \<Rightarrow> map_outcome (Pair sw) (RecordStopwatch r (start sw) s1)
        | Panics e \<Rightarrow> Panics e
        | Diverges \<Rightarrow> Diverges)"
    by (simp add: numeral_2_eq_2 split: outcome.splits)
  have many: "Stop_times n sw s
              = map_outcome (Pair sw) (RecordStopwatch_times n r (start sw) s)"
    using r by (rule Stop_times_Some)
  have total: "Stop_times n sw s = Returns (sw, (f ^^ n) s)"
    if "\<forall>x. RecordStopwatch r (start sw) x = Returns (f x)"
    using that many by (simp add: RecordStopwatch_times_returning)
  from one two many total show ?thesis by blast
qed

text \<open>
  With the logging recorder, two calls leave two entries where one call leaves one.
\<close>

theorem Stop_reports_on_every_call_witness:
  "recorder (NewStopwatch 100 (Some logging_recorder)) = Some logging_recorder
   \<and> Stop (NewStopwatch 100 (Some logging_recorder)) \<lparr>clock = 150, received = []\<rparr>
       = Returns (NewStopwatch 100 (Some logging_recorder), \<lparr>clock = 150, received = [100]\<rparr>)
   \<and> Stop_times 2 (NewStopwatch 100 (Some logging_recorder)) \<lparr>clock = 150, received = []\<rparr>
       = Returns (NewStopwatch 100 (Some logging_recorder),
                  \<lparr>clock = 150, received = [100, 100]\<rparr>)"
proof -
  have h: "recorder (NewStopwatch 100 (Some logging_recorder)) = Some logging_recorder"
    by (simp add: NewStopwatch_def)
  have one: "RecordStopwatch logging_recorder
          (start (NewStopwatch 100 (Some logging_recorder))) \<lparr>clock = 150, received = []\<rparr>
        = Returns \<lparr>clock = 150, received = [100]\<rparr>"
    by (simp add: NewStopwatch_def logging_recorder_def)
  have two: "RecordStopwatch logging_recorder
          (start (NewStopwatch 100 (Some logging_recorder))) \<lparr>clock = 150, received = [100]\<rparr>
        = Returns \<lparr>clock = 150, received = [100, 100]\<rparr>"
    by (simp add: NewStopwatch_def logging_recorder_def)
  from Stop_reports_on_every_call [OF h, of "\<lparr>clock = 150, received = []\<rparr>" 0 id] h one two
  show ?thesis by simp
qed

text \<open>
  C4 as the specification words it, for every stopwatch: on the zero value
  \<open>Stopwatch{}\<close> there is no recorder, and a call of \<open>Stop\<close>, or two, panics and reports
  nothing.
\<close>

theorem Stop_reports_on_every_call_counterexample:
  "recorder (zero_Stopwatch :: world Stopwatch) = None
   \<and> Stop zero_Stopwatch \<lparr>clock = 150, received = []\<rparr> = Panics NilPointerDereference
   \<and> Stop_times 2 zero_Stopwatch \<lparr>clock = 150, received = []\<rparr> = Panics NilPointerDereference"
  by (simp add: Stop_def zero_Stopwatch_def numeral_2_eq_2)

subsection \<open>When \<open>Stop\<close> panics\<close>

text \<open>
  C10, as amended. \<open>Stop\<close> does not test its recorder and recovers from nothing. On the
  zero value \<open>Stopwatch{}\<close>, and on every stopwatch whose recorder is the nil
  interface, it panics with a nil pointer dereference. On a stopwatch whose recorder
  is not nil, so on every stopwatch that \<open>NewStopwatch\<close> builds from a recorder that is
  not nil, \<open>Stop\<close> ends exactly as the recorder's call \<open>RecordStopwatch(start)\<close> ends: it
  completes when that call returns, it panics, with the same panic, when that call
  panics, and it does not return when that call does not.
\<close>

theorem Stop_ends_as_the_recorder_call:
  "Stop zero_Stopwatch s = Panics NilPointerDereference
   \<and> (recorder sw = None \<longrightarrow> Stop sw s = Panics NilPointerDereference)
   \<and> (recorder sw = Some r \<longrightarrow>
         ((\<exists>s'. Stop sw s = Returns (sw, s'))
            \<longleftrightarrow> (\<exists>s'. RecordStopwatch r (start sw) s = Returns s'))
       \<and> (\<forall>e. Stop sw s = Panics e \<longleftrightarrow> RecordStopwatch r (start sw) s = Panics e)
       \<and> (Stop sw s = Diverges \<longleftrightarrow> RecordStopwatch r (start sw) s = Diverges))
   \<and> Stop (NewStopwatch t (Some r)) s
       = map_outcome (Pair (NewStopwatch t (Some r))) (RecordStopwatch r t s)"
proof -
  have zero: "Stop zero_Stopwatch s = Panics NilPointerDereference"
    by (simp add: Stop_def zero_Stopwatch_def)
  have nil: "recorder sw = None \<longrightarrow> Stop sw s = Panics NilPointerDereference"
    by (simp add: Stop_def)
  have some: "((\<exists>s'. Stop sw s = Returns (sw, s'))
            \<longleftrightarrow> (\<exists>s'. RecordStopwatch r (start sw) s = Returns s'))
       \<and> (\<forall>e. Stop sw s = Panics e \<longleftrightarrow> RecordStopwatch r (start sw) s = Panics e)
       \<and> (Stop sw s = Diverges \<longleftrightarrow> RecordStopwatch r (start sw) s = Diverges)"
    if "recorder sw = Some r"
    using that by (cases "RecordStopwatch r (start sw) s") (auto simp: Stop_def)
  have new: "Stop (NewStopwatch t (Some r)) s
       = map_outcome (Pair (NewStopwatch t (Some r))) (RecordStopwatch r t s)"
    by (simp add: Stop_def NewStopwatch_def split: outcome.splits)
  from zero nil some new show ?thesis by blast
qed

theorem Stop_ends_as_the_recorder_call_witness:
  "recorder (NewStopwatch 100 (Some logging_recorder)) = Some logging_recorder
   \<and> (\<exists>s'. Stop (NewStopwatch 100 (Some logging_recorder)) \<lparr>clock = 150, received = []\<rparr>
             = Returns (NewStopwatch 100 (Some logging_recorder), s'))
   \<and> recorder (zero_Stopwatch :: world Stopwatch) = None
   \<and> Stop zero_Stopwatch \<lparr>clock = 150, received = []\<rparr> = Panics NilPointerDereference"
proof -
  have h: "recorder (NewStopwatch 100 (Some logging_recorder)) = Some logging_recorder"
    by (simp add: NewStopwatch_def)
  have z: "recorder (zero_Stopwatch :: world Stopwatch) = None"
    by (simp add: zero_Stopwatch_def)
  have ret: "\<exists>s'. RecordStopwatch logging_recorder
          (start (NewStopwatch 100 (Some logging_recorder))) \<lparr>clock = 150, received = []\<rparr>
        = Returns s'"
    by (simp add: logging_recorder_def)
  from Stop_ends_as_the_recorder_call
         [of "\<lparr>clock = 150, received = []\<rparr>" "NewStopwatch 100 (Some logging_recorder)"
             logging_recorder 0] h z ret
  show ?thesis by blast
qed

text \<open>
  C10 as it was worded: \<open>Stop\<close> completes on every stopwatch whose recorder is not nil.
  The recorder that holds a nil pointer is not nil, and \<open>Stop\<close> panics with a nil
  pointer dereference; so it does, with the recorder's panic, when the recorder's
  method panics.
\<close>

theorem Stop_completes_on_non_nil_recorder_counterexample:
  "recorder (NewStopwatch 100 (Some typed_nil_recorder)) \<noteq> None
   \<and> Stop (NewStopwatch 100 (Some typed_nil_recorder)) \<lparr>clock = 150, received = []\<rparr>
       = Panics NilPointerDereference
   \<and> recorder (NewStopwatch 100 (Some panicking_recorder)) \<noteq> None
   \<and> Stop (NewStopwatch 100 (Some panicking_recorder)) \<lparr>clock = 150, received = []\<rparr>
       = Panics (PanicValue ''recorder failed'')"
  by (simp add: Stop_def NewStopwatch_def typed_nil_recorder_def panicking_recorder_def)

section \<open>Properties of counters under \<open>SnapshotReset\<close>\<close>

lemma counters_Incs:
  "counters (Incs w s) c =
     (if c \<in> dom (counters s) \<or> c \<in> fst ` set w
      then Some ((case counters s c of None \<Rightarrow> 0 | Some v \<Rightarrow> v) + window_total c w)
      else None)"
proof (induction w arbitrary: s)
  case Nil
  show ?case by (auto simp: window_total_def)
next
  case (Cons x w)
  obtain name delta where x: "x = (name, delta)" by (cases x)
  show ?case
    unfolding x Incs.simps Cons.IH
    by (auto simp: Inc_def window_total_def dom_def split: option.splits)
qed

lemma counters_after_reset:
  "ResetCounters opts \<Longrightarrow>
   counters (snd (SnapshotReset opts s)) c = map_option (\<lambda>_. 0) (counters s c)"
  by (simp add: SnapshotReset_def)

lemma Counters_snapshot: "Counters (fst (SnapshotReset opts s)) = counters s"
  by (simp add: SnapshotReset_def)

text \<open>
  C1. Take any scope, a \<open>SnapshotReset\<close> that resets counters, a window \<open>w1\<close> of
  increments, a second \<open>SnapshotReset\<close> that resets counters, a window \<open>w2\<close> and a third
  \<open>SnapshotReset\<close>. For every counter \<open>c\<close> that exists in the first window, the second
  snapshot shows exactly the sum of the deltas of \<open>w1\<close> on \<open>c\<close>, the counter is at zero
  after it, and the third snapshot shows exactly the sum of the deltas of \<open>w2\<close> on \<open>c\<close>:
  every increment is counted once, in the snapshot that closes its window, and in no
  other. The sums are those of \<open>int64\<close>.
\<close>

theorem SnapshotReset_counts_each_increment_once:
  assumes o1: "ResetCounters o1" and o2: "ResetCounters o2"
    and reg: "c \<in> dom (counters s0) \<or> c \<in> fst ` set w1"
  shows "(let s1 = snd (SnapshotReset o1 s0);
              r2 = SnapshotReset o2 (Incs w1 s1);
              r3 = SnapshotReset o3 (Incs w2 (snd r2))
          in Counters (fst r2) c = Some (window_total c w1)
           \<and> counters (snd r2) c = Some 0
           \<and> Counters (fst r3) c = Some (window_total c w2))"
proof -
  define s1 where "s1 = snd (SnapshotReset o1 s0)"
  define r2 where "r2 = SnapshotReset o2 (Incs w1 s1)"
  have s1c: "counters s1 c = map_option (\<lambda>_. 0) (counters s0 c)"
    unfolding s1_def using o1 by (rule counters_after_reset)
  have in1: "c \<in> dom (counters s1) \<or> c \<in> fst ` set w1"
    using reg s1c by (auto simp: dom_def)
  have first: "Counters (fst r2) c = Some (window_total c w1)"
    unfolding r2_def Counters_snapshot counters_Incs using in1 s1c
    by (auto split: option.splits)
  then have "counters (Incs w1 s1) c = Some (window_total c w1)"
    by (simp add: r2_def Counters_snapshot)
  then have cleared: "counters (snd r2) c = Some 0"
    unfolding r2_def using o2 by (simp add: counters_after_reset)
  have second:
    "Counters (fst (SnapshotReset o3 (Incs w2 (snd r2)))) c = Some (window_total c w2)"
    unfolding Counters_snapshot counters_Incs using cleared by (auto simp: dom_def)
  show ?thesis
    using first cleared second unfolding Let_def s1_def r2_def by simp
qed

text \<open>
  The example of the specification: \<open>+5\<close> and \<open>+3\<close>, a snapshot with reset, \<open>+2\<close>, a
  snapshot. The snapshots show 8 and 2 (and 2 is not 10), with the counter at zero in
  between.
\<close>

theorem SnapshotReset_counts_each_increment_once_witness:
  "ResetCounters \<lparr>ResetCounters = True, ResetTimers = False, ResetHistograms = False\<rparr>
   \<and> ''requests'' \<in> fst ` set [(''requests'', 5 :: int64), (''requests'', 3)]
   \<and> (let opts = \<lparr>ResetCounters = True, ResetTimers = False, ResetHistograms = False\<rparr>;
          s1 = snd (SnapshotReset opts NewScope);
          r2 = SnapshotReset opts (Incs [(''requests'', 5), (''requests'', 3)] s1);
          r3 = SnapshotReset opts (Incs [(''requests'', 2)] (snd r2))
      in Counters (fst r2) ''requests'' = Some 8
       \<and> counters (snd r2) ''requests'' = Some 0
       \<and> Counters (fst r3) ''requests'' = Some 2
       \<and> Counters (fst r3) ''requests'' \<noteq> Some 10)"
proof -
  let ?opts = "\<lparr>ResetCounters = True, ResetTimers = False, ResetHistograms = False\<rparr>"
  have h: "ResetCounters ?opts" by simp
  have reg: "''requests'' \<in> dom (counters NewScope)
             \<or> ''requests'' \<in> fst ` set [(''requests'', 5 :: int64), (''requests'', 3)]"
    by simp
  have w1: "window_total ''requests'' [(''requests'', 5), (''requests'', 3)] = 8"
    by (simp add: window_total_def)
  have w2: "window_total ''requests'' [(''requests'', 2)] = 2"
    by (simp add: window_total_def)
  from SnapshotReset_counts_each_increment_once
         [OF h h reg, of ?opts "[(''requests'', 2)]"]
  show ?thesis
    unfolding Let_def w1 w2 by simp
qed

section \<open>Properties of the linear value buckets\<close>


lemma linear_width_zero:
  "map (\<lambda>i. start0 + real i * (0 :: real)) [0..<n] = replicate n start0"
  by (simp add: map_replicate_const)



end
